theory Spec2Isabelle
  imports Complex_Main
begin

section \<open>Numbers and data\<close>

text \<open>
  The program (\<^verbatim>\<open>script.js\<close>) computes with JavaScript numbers. The embedding takes
  a finite number as a \<^typ>\<open>real\<close> and computes exactly: rounding, overflow and the
  infinities of IEEE arithmetic are outside the model. The results of \<^verbatim>\<open>parseInt\<close>
  are whole numbers and are taken as \<^typ>\<open>int\<close>. \<^verbatim>\<open>NaN\<close>, which
  \<^verbatim>\<open>parseFloat\<close> and \<^verbatim>\<open>parseInt\<close> return for a text that is not a number, is a
  value of its own at the place where the program tests for it (line 35).
\<close>

datatype 'a parsed = NaN | Num 'a

fun isNaN :: "'a parsed \<Rightarrow> bool" where
  "isNaN NaN = True"
| "isNaN (Num _) = False"

text \<open>Lines 3 and 4: the constants.\<close>

definition Es :: real where
  "Es = 2040000"

definition epsilon_cu :: real where
  "epsilon_cu = 3 / 1000"

text \<open>
  Lines 25 to 32: what the program reads. The eight values are the parsed contents of the
  page elements \<^verbatim>\<open>fc\<close>, \<^verbatim>\<open>fy\<close>, \<^verbatim>\<open>b\<close>, \<^verbatim>\<open>h\<close>, \<^verbatim>\<open>cover\<close>, \<^verbatim>\<open>barSize\<close>,
  \<^verbatim>\<open>nx\<close> and \<^verbatim>\<open>ny\<close>. The value of \<^verbatim>\<open>barSize\<close> is the one value that line 35
  does not test; the model takes it as a number.
\<close>

record form =
  val_fc :: "real parsed"
  val_fy :: "real parsed"
  val_b :: "real parsed"
  val_h :: "real parsed"
  val_cover :: "real parsed"
  val_barSize :: real
  val_nx :: "int parsed"
  val_ny :: "int parsed"

text \<open>A steel layer \<^verbatim>\<open>{y, As}\<close> and a point of the diagram \<^verbatim>\<open>{x, y}\<close>.\<close>

record layer =
  layer_y :: real
  layer_As :: real

record point =
  pt_x :: real
  pt_y :: real

text \<open>What \<^verbatim>\<open>calculateAndDraw\<close> hands over: the points for the chart and the two
  summary values written to the page.\<close>

record diagram =
  dg_points :: "point list"
  dg_Po :: real
  dg_Mo_approx :: real

section \<open>The steel layers (lines 44 to 67)\<close>

text \<open>The loop of lines 58 to 63, with its counter \<open>i\<close>.\<close>

function sideLoop :: "int \<Rightarrow> int \<Rightarrow> real \<Rightarrow> real \<Rightarrow> real \<Rightarrow> layer list \<Rightarrow> layer list" where
  "sideLoop i numSideLayers cover verticalSpacing barArea steelLayers =
     (if i \<le> numSideLayers
      then sideLoop (i + 1) numSideLayers cover verticalSpacing barArea
             (steelLayers @
               [\<lparr>layer_y = cover + real_of_int i * verticalSpacing, layer_As = 2 * barArea\<rparr>])
      else steelLayers)"
  by pat_completeness auto
termination
  by (relation "measure (\<lambda>(i, n, _). nat (n + 1 - i))") auto

declare sideLoop.simps [simp del]

definition steelLayers :: "real \<Rightarrow> real \<Rightarrow> real \<Rightarrow> int \<Rightarrow> int \<Rightarrow> layer list" where
  "steelLayers h cover barArea nx ny =
     (let top = \<lparr>layer_y = cover, layer_As = real_of_int nx * barArea\<rparr>;
          bottom = \<lparr>layer_y = h - cover, layer_As = real_of_int nx * barArea\<rparr>
      in if ny > 2
         then sideLoop 1 (ny - 2) cover ((h - 2 * cover) / real_of_int (ny - 1)) barArea
                [top, bottom]
         else [top, bottom])"

text \<open>Line 67: \<^verbatim>\<open>steelLayers.reduce((sum, layer) => sum + layer.As, 0)\<close>.\<close>

definition Ast_of :: "layer list \<Rightarrow> real" where
  "Ast_of ls = fold (\<lambda>l sum. sum + layer_As l) ls 0"

text \<open>Lines 70 to 74.\<close>

definition beta1_of :: "real \<Rightarrow> real" where
  "beta1_of fc =
     (if fc > 280
      then (let beta1 = 85 / 100 - 5 / 100 * (fc - 280) / 70
            in if beta1 < 65 / 100 then 65 / 100 else beta1)
      else 85 / 100)"

section \<open>The single-point solver (lines 118 to 167)\<close>

text \<open>Lines 123 and 124: the depth of the stress block.\<close>

definition block_a :: "real \<Rightarrow> real \<Rightarrow> real \<Rightarrow> real" where
  "block_a beta1 c h = (let a = beta1 * c in if a > h then h else a)"

text \<open>
  Lines 143 to 148: the stress of the steel at depth \<open>d\<close>. The program divides by
  \<open>c\<close>. For \<open>c = 0\<close> (which the sweep reaches only with \<open>h = 0\<close>) it gets an infinity
  or \<^verbatim>\<open>NaN\<close>, which the model does not have: there the value of \<open>steel_fs\<close> is
  not the program's, and the statements below about its value assume \<open>c > 0\<close>.
\<close>

definition steel_fs :: "real \<Rightarrow> real \<Rightarrow> real \<Rightarrow> real \<Rightarrow> real" where
  "steel_fs c fy eps_cu d =
     (let epsilon_s = eps_cu * (c - d) / c;
          fs = Es * epsilon_s;
          fs = (if fs > fy then fy else fs);
          fs = (if fs < - fy then - fy else fs)
      in fs)"

text \<open>Lines 151 and 156: the force and the moment of one layer.\<close>

definition steel_F :: "real \<Rightarrow> real \<Rightarrow> real \<Rightarrow> layer \<Rightarrow> real" where
  "steel_F c fy eps_cu l = steel_fs c fy eps_cu (layer_y l) * layer_As l"

definition steel_M :: "real \<Rightarrow> real \<Rightarrow> real \<Rightarrow> real \<Rightarrow> layer \<Rightarrow> real" where
  "steel_M c h fy eps_cu l = steel_F c fy eps_cu l * (h / 2 - layer_y l)"

text \<open>Lines 138 to 160: one pass of the loop over the layers, on the pair \<open>(Pn, Mn)\<close>.\<close>

definition steel_step :: "real \<Rightarrow> real \<Rightarrow> real \<Rightarrow> real \<Rightarrow> layer \<Rightarrow> real \<times> real \<Rightarrow> real \<times> real" where
  "steel_step c h fy eps_cu l = (\<lambda>(Pn, Mn).
     (Pn + steel_F c fy eps_cu l, Mn + steel_M c h fy eps_cu l))"

text \<open>The internal force and moment \<open>(Pn, Mn)\<close> when the loop is over.\<close>

definition internal_PM ::
  "real \<Rightarrow> real \<Rightarrow> real \<Rightarrow> real \<Rightarrow> real \<Rightarrow> real \<Rightarrow> layer list \<Rightarrow> real \<Rightarrow> real \<times> real" where
  "internal_PM c b h fc fy beta1 ls eps_cu =
     (let a = block_a beta1 c h;
          C_c = 85 / 100 * fc * b * a;
          M_c = C_c * (h / 2 - a / 2)
      in fold (steel_step c h fy eps_cu) ls (0 + C_c, 0 + M_c))"

definition calculatePoint ::
  "real \<Rightarrow> real \<Rightarrow> real \<Rightarrow> real \<Rightarrow> real \<Rightarrow> real \<Rightarrow> layer list \<Rightarrow> real \<Rightarrow> point" where
  "calculatePoint c b h fc fy beta1 ls eps_cu =
     (case internal_PM c b h fc fy beta1 ls eps_cu of
        (Pn, Mn) \<Rightarrow> \<lparr>pt_x = Mn / 100000, pt_y = Pn / 1000\<rparr>)"

section \<open>The driver (lines 23 to 116)\<close>

text \<open>Lines 90 to 93.\<close>

definition c_ratios :: "real list" where
  "c_ratios =
     [2, 15 / 10, 12 / 10, 11 / 10, 1,
      9 / 10, 8 / 10, 7 / 10, 6 / 10, 55 / 100, 5 / 10, 45 / 100, 4 / 10, 35 / 100,
      3 / 10, 25 / 100, 2 / 10, 15 / 100, 1 / 10, 5 / 100]"

text \<open>Lines 97 to 102: one pass of the sweep, on the pair \<open>(points, maxM)\<close>.\<close>

definition sweep_step ::
  "real \<Rightarrow> real \<Rightarrow> real \<Rightarrow> real \<Rightarrow> real \<Rightarrow> layer list \<Rightarrow> real \<Rightarrow> point list \<times> real \<Rightarrow> point list \<times> real" where
  "sweep_step b h fc fy beta1 ls ratio = (\<lambda>(points, maxM).
     (let c = ratio * h;
          pt = calculatePoint c b h fc fy beta1 ls epsilon_cu
      in (points @ [pt], if pt_x pt > maxM then pt_x pt else maxM)))"

text \<open>Lines 37 to 115, on numbers: everything after the test of line 35.\<close>

definition computeDiagram ::
  "real \<Rightarrow> real \<Rightarrow> real \<Rightarrow> real \<Rightarrow> real \<Rightarrow> real \<Rightarrow> int \<Rightarrow> int \<Rightarrow> diagram" where
  "computeDiagram fc fy b h cover barArea nx ny =
     (let ls = steelLayers h cover barArea nx ny;
          Ag = b * h;
          Ast = Ast_of ls;
          beta1 = beta1_of fc;
          Po = (85 / 100 * fc * (Ag - Ast) + fy * Ast) / 1000;
          points = [] @ [\<lparr>pt_x = 0, pt_y = Po\<rparr>];
          (points, maxM) = fold (sweep_step b h fc fy beta1 ls) c_ratios (points, 0);
          Pt = (- fy * Ast) / 1000;
          points = points @ [\<lparr>pt_x = 0, pt_y = Pt\<rparr>];
          Mo_approx = maxM
      in \<lparr>dg_points = points, dg_Po = Po, dg_Mo_approx = Mo_approx\<rparr>)"

text \<open>The whole function: the test of line 35 returns with nothing, and so no diagram.\<close>

definition calculateAndDraw :: "form \<Rightarrow> diagram option" where
  "calculateAndDraw f =
     (if isNaN (val_fc f) \<or> isNaN (val_fy f) \<or> isNaN (val_b f) \<or> isNaN (val_h f)
         \<or> isNaN (val_cover f) \<or> isNaN (val_nx f) \<or> isNaN (val_ny f)
      then None
      else (case (val_fc f, val_fy f, val_b f, val_h f, val_cover f, val_nx f, val_ny f) of
              (Num fc, Num fy, Num b, Num h, Num cover, Num nx, Num ny) \<Rightarrow>
                Some (computeDiagram fc fy b h cover (val_barSize f) nx ny)
            | _ \<Rightarrow> None))"

section \<open>Inputs of the claims\<close>

text \<open>The form in which all eight values are numbers.\<close>

definition form_of :: "real \<Rightarrow> real \<Rightarrow> real \<Rightarrow> real \<Rightarrow> real \<Rightarrow> real \<Rightarrow> int \<Rightarrow> int \<Rightarrow> form" where
  "form_of fc fy b h cover barArea nx ny =
     \<lparr>val_fc = Num fc, val_fy = Num fy, val_b = Num b, val_h = Num h, val_cover = Num cover,
      val_barSize = barArea, val_nx = Num nx, val_ny = Num ny\<rparr>"

text \<open>
  The inputs that the specification calls valid (its section 3): every value strictly
  positive, \<open>h > 2 * cover\<close>, \<open>nx \<ge> 1\<close> and \<open>ny \<ge> 2\<close>. The program tests none
  of this; the predicate is only the hypothesis of the claims made for valid inputs.
\<close>

definition valid_inputs :: "real \<Rightarrow> real \<Rightarrow> real \<Rightarrow> real \<Rightarrow> real \<Rightarrow> real \<Rightarrow> int \<Rightarrow> int \<Rightarrow> bool" where
  "valid_inputs fc fy b h cover barArea nx ny =
     (0 < fc \<and> 0 < fy \<and> 0 < b \<and> 0 < h \<and> 0 < cover \<and> 0 < barArea
      \<and> h > 2 * cover \<and> nx \<ge> 1 \<and> ny \<ge> 2)"

text \<open>The layer that pass \<open>i\<close> of the loop of lines 58 to 63 appends.\<close>

definition side_layer :: "real \<Rightarrow> real \<Rightarrow> real \<Rightarrow> int \<Rightarrow> layer" where
  "side_layer cover spacing barArea i =
     \<lparr>layer_y = cover + real_of_int i * spacing, layer_As = 2 * barArea\<rparr>"

section \<open>The loops in closed form\<close>

text \<open>The loop of the side layers appends one layer for each \<open>i\<close> from its start to
  \<open>numSideLayers\<close>; the folds are sums.\<close>

lemma sideLoop_closed:
  "sideLoop i n cover s ba acc = acc @ map (side_layer cover s ba) [i..n]"
proof (induction i n cover s ba acc rule: sideLoop.induct)
  case (1 i n cover s ba acc)
  show ?case
  proof (cases "i \<le> n")
    case True
    then show ?thesis
      using "1.IH" by (subst sideLoop.simps) (simp add: upto_rec1 [of i n] side_layer_def)
  next
    case False
    then show ?thesis by (subst sideLoop.simps) simp
  qed
qed

lemma steelLayers_closed:
  "steelLayers h cover ba nx ny =
     [\<lparr>layer_y = cover, layer_As = real_of_int nx * ba\<rparr>,
      \<lparr>layer_y = h - cover, layer_As = real_of_int nx * ba\<rparr>]
     @ map (side_layer cover ((h - 2 * cover) / real_of_int (ny - 1)) ba) [1..ny - 2]"
  by (simp add: steelLayers_def Let_def sideLoop_closed)

lemma fold_sum_As: "fold (\<lambda>l sum. sum + layer_As l) ls a = a + sum_list (map layer_As ls)"
  by (induction ls arbitrary: a) simp_all

lemma Ast_of_sum: "Ast_of ls = sum_list (map layer_As ls)"
  by (simp add: Ast_of_def fold_sum_As)

lemma fold_steel_step:
  "fold (steel_step c h fy e) ls (P, M) =
     (P + sum_list (map (steel_F c fy e) ls), M + sum_list (map (steel_M c h fy e) ls))"
  by (induction ls arbitrary: P M) (simp_all add: steel_step_def)

lemma fold_sweep_step:
  "fold (sweep_step b h fc fy beta1 ls) rs (pts, m) =
     (pts @ map (\<lambda>r. calculatePoint (r * h) b h fc fy beta1 ls epsilon_cu) rs,
      fold (\<lambda>r m. if pt_x (calculatePoint (r * h) b h fc fy beta1 ls epsilon_cu) > m
          then pt_x (calculatePoint (r * h) b h fc fy beta1 ls epsilon_cu) else m) rs m)"
  by (induction rs arbitrary: pts m) (simp_all add: sweep_step_def Let_def)

lemma fold_max_Max:
  "fold (\<lambda>r m. if g r > m then g r else m) rs (m0::real) = Max (insert m0 (g ` set rs))"
proof (induction rs arbitrary: m0)
  case Nil
  then show ?case by simp
next
  case (Cons r rs)
  have "Max (insert (if m0 < g r then g r else m0) (g ` set rs)) = Max (insert m0 (insert (g r) (g ` set rs)))"
  proof (cases "set rs = {}")
    case True then show ?thesis by (auto simp: max_def)
  next
    case False
    then show ?thesis
      by (simp add: Max_insert max_def) 
  qed
  then show ?case using Cons.IH by simp
qed

section \<open>The diagram in closed form\<close>

lemma calculateAndDraw_form_of:
  "calculateAndDraw (form_of fc fy b h cover ba nx ny) = Some (computeDiagram fc fy b h cover ba nx ny)"
  by (simp add: calculateAndDraw_def form_of_def)

lemma not_isNaN: "\<not> isNaN p \<Longrightarrow> \<exists>x. p = Num x"
  by (cases p) simp_all

lemma calculateAndDraw_numeric:
  assumes "\<not> isNaN (val_fc f)" "\<not> isNaN (val_fy f)" "\<not> isNaN (val_b f)" "\<not> isNaN (val_h f)"
    "\<not> isNaN (val_cover f)" "\<not> isNaN (val_nx f)" "\<not> isNaN (val_ny f)"
  shows "\<exists>fc fy b h cover nx ny.
     calculateAndDraw f = Some (computeDiagram fc fy b h cover (val_barSize f) nx ny)"
proof -
  from assms obtain fc fy b h cover nx ny where
    "val_fc f = Num fc" "val_fy f = Num fy" "val_b f = Num b" "val_h f = Num h"
    "val_cover f = Num cover" "val_nx f = Num nx" "val_ny f = Num ny"
    by (meson not_isNaN)
  then have "calculateAndDraw f = Some (computeDiagram fc fy b h cover (val_barSize f) nx ny)"
    by (simp add: calculateAndDraw_def)
  then show ?thesis by blast
qed

lemma computeDiagram_points:
  "dg_points (computeDiagram fc fy b h cover ba nx ny) =
     [\<lparr>pt_x = 0, pt_y = dg_Po (computeDiagram fc fy b h cover ba nx ny)\<rparr>]
     @ map (\<lambda>r. calculatePoint (r * h) b h fc fy (beta1_of fc) (steelLayers h cover ba nx ny) epsilon_cu) c_ratios
     @ [\<lparr>pt_x = 0, pt_y = (- fy * Ast_of (steelLayers h cover ba nx ny)) / 1000\<rparr>]"
  by (simp add: computeDiagram_def Let_def fold_sweep_step)

lemma computeDiagram_Po:
  "dg_Po (computeDiagram fc fy b h cover ba nx ny) =
     (85 / 100 * fc * (b * h - Ast_of (steelLayers h cover ba nx ny))
       + fy * Ast_of (steelLayers h cover ba nx ny)) / 1000"
  by (simp add: computeDiagram_def Let_def fold_sweep_step)

lemma computeDiagram_Mo:
  "dg_Mo_approx (computeDiagram fc fy b h cover ba nx ny) =
     Max (insert 0 ((\<lambda>r. pt_x (calculatePoint (r * h) b h fc fy (beta1_of fc)
            (steelLayers h cover ba nx ny) epsilon_cu)) ` set c_ratios))"
  by (simp add: computeDiagram_def Let_def fold_sweep_step fold_max_Max)

lemma internal_PM_closed:
  "internal_PM c b h fc fy beta1 ls e =
     (85 / 100 * fc * b * block_a beta1 c h + sum_list (map (steel_F c fy e) ls),
      85 / 100 * fc * b * block_a beta1 c h * (h / 2 - block_a beta1 c h / 2)
        + sum_list (map (steel_M c h fy e) ls))"
  by (simp add: internal_PM_def Let_def fold_steel_step)

section \<open>The moment of a sweep point is not negative\<close>

text \<open>
  The stress falls with the depth of the layer, and the layers that the builder makes
  have their centroid at mid-depth. So the steel adds a moment that is not negative,
  and so does the stress block, whose depth is at most \<open>h\<close>.
\<close>

lemma steel_fs_antimono:
  assumes "0 < c" "0 < fy" "0 \<le> e" "d1 \<le> d2"
  shows "steel_fs c fy e d2 \<le> steel_fs c fy e d1"
proof -
  have "e * (c - d2) \<le> e * (c - d1)"
    using assms by (simp add: mult_left_mono)
  then have "e * (c - d2) / c \<le> e * (c - d1) / c"
    using assms by (simp add: divide_right_mono)
  then have "Es * (e * (c - d2) / c) \<le> Es * (e * (c - d1) / c)"
    by (simp add: Es_def)
  then show ?thesis
    using assms by (auto simp: steel_fs_def Let_def)
qed

lemma steel_M_lower:
  assumes "0 < c" "0 < fy" "0 \<le> e" "0 \<le> layer_As l"
  shows "steel_fs c fy e (h / 2) * (layer_As l * (h / 2 - layer_y l)) \<le> steel_M c h fy e l"
proof (cases "layer_y l \<le> h / 2")
  case True
  then have "steel_fs c fy e (h / 2) \<le> steel_fs c fy e (layer_y l)"
    using assms by (intro steel_fs_antimono) simp_all
  moreover have "0 \<le> layer_As l * (h / 2 - layer_y l)"
    using True assms by simp
  ultimately have "steel_fs c fy e (h / 2) * (layer_As l * (h / 2 - layer_y l))
      \<le> steel_fs c fy e (layer_y l) * (layer_As l * (h / 2 - layer_y l))"
    by (rule mult_right_mono)
  then show ?thesis by (simp add: steel_M_def steel_F_def mult.assoc)
next
  case False
  then have "steel_fs c fy e (layer_y l) \<le> steel_fs c fy e (h / 2)"
    using assms by (intro steel_fs_antimono) simp_all
  moreover have "layer_As l * (h / 2 - layer_y l) \<le> 0"
    using False assms by (simp add: mult_nonneg_nonpos)
  ultimately have "steel_fs c fy e (h / 2) * (layer_As l * (h / 2 - layer_y l))
      \<le> steel_fs c fy e (layer_y l) * (layer_As l * (h / 2 - layer_y l))"
    by (rule mult_right_mono_neg)
  then show ?thesis by (simp add: steel_M_def steel_F_def mult.assoc)
qed

lemma sum_steel_M_lower:
  assumes "0 < c" "0 < fy" "0 \<le> e" "list_all (\<lambda>l. 0 \<le> layer_As l) ls"
  shows "steel_fs c fy e (h / 2) * sum_list (map (\<lambda>l. layer_As l * (h / 2 - layer_y l)) ls)
     \<le> sum_list (map (steel_M c h fy e) ls)"
  using assms(4)
proof (induction ls)
  case Nil
  then show ?case by simp
next
  case (Cons l ls)
  then have "0 \<le> layer_As l" and "list_all (\<lambda>l. 0 \<le> layer_As l) ls" by simp_all
  with Cons.IH steel_M_lower [OF assms(1-3), of l h] show ?case
    by (simp add: distrib_left)
qed

lemma sum_upto_linear:
  assumes "0 \<le> n"
  shows "sum_list (map (\<lambda>i. a - real_of_int i * s) [1..n])
     = real_of_int n * a - s * (real_of_int n * (real_of_int n + 1) / 2)"
  using assms
proof (induction n rule: int_ge_induct)
  case base
  then show ?case by simp
next
  case (step n)
  then have "[1..n + 1] = [1..n] @ [n + 1]"
    using upto_rec2 [of 1 "n + 1"] by simp
  with step show ?case by (simp add: field_simps)
qed

lemma sum_side_layers:
  "sum_list (map (\<lambda>l. layer_As l * (h / 2 - layer_y l)) (map (side_layer cover s ba) ks))
     = 2 * ba * sum_list (map (\<lambda>i. (h / 2 - cover) - real_of_int i * s) ks)"
  by (induction ks) (simp_all add: side_layer_def algebra_simps)

lemma steelLayers_centroid:
  assumes "2 \<le> ny"
  shows "sum_list (map (\<lambda>l. layer_As l * (h / 2 - layer_y l)) (steelLayers h cover ba nx ny)) = 0"
proof -
  define n where "n = real_of_int (ny - 2)"
  define s where "s = (h - 2 * cover) / real_of_int (ny - 1)"
  have s_eq: "s = (h - 2 * cover) / (n + 1)" by (simp add: s_def n_def)
  have "n + 1 \<noteq> 0" using assms by (simp add: n_def)
  then have sn: "s * (n + 1) = h - 2 * cover"
    by (simp add: s_eq)
  have "s * (n * (n + 1) / 2) = n * (s * (n + 1)) / 2"
    by (simp add: algebra_simps)
  also have "\<dots> = n * (h - 2 * cover) / 2"
    by (simp only: sn)
  finally have half: "s * (n * (n + 1) / 2) = n * (h - 2 * cover) / 2" .
  have "sum_list (map (\<lambda>l. layer_As l * (h / 2 - layer_y l)) (map (side_layer cover s ba) [1..ny - 2]))
      = 2 * ba * sum_list (map (\<lambda>i. (h / 2 - cover) - real_of_int i * s) [1..ny - 2])"
    by (rule sum_side_layers)
  also have "\<dots> = 2 * ba * (n * (h / 2 - cover) - s * (n * (n + 1) / 2))"
    using assms unfolding n_def by (subst sum_upto_linear) simp_all
  also have "\<dots> = 0"
    unfolding half by (simp add: field_simps)
  finally have side: "sum_list (map (\<lambda>l. layer_As l * (h / 2 - layer_y l))
      (map (side_layer cover s ba) [1..ny - 2])) = 0" .
  show ?thesis
    unfolding steelLayers_closed using side unfolding s_def by (simp add: algebra_simps)
qed

lemma steelLayers_As_nonneg:
  assumes "0 \<le> ba" "0 \<le> nx"
  shows "list_all (\<lambda>l. 0 \<le> layer_As l) (steelLayers h cover ba nx ny)"
  using assms by (simp add: steelLayers_closed list_all_iff side_layer_def)

lemma beta1_of_bounds: "65 / 100 \<le> beta1_of fc \<and> beta1_of fc \<le> 85 / 100"
  by (simp add: beta1_of_def Let_def)

lemma block_a_le: "block_a beta1 c h \<le> h"
  by (simp add: block_a_def Let_def)

lemma block_a_nonneg: "0 \<le> beta1 \<Longrightarrow> 0 \<le> c \<Longrightarrow> 0 \<le> h \<Longrightarrow> 0 \<le> block_a beta1 c h"
  by (simp add: block_a_def Let_def)

lemma calculatePoint_x_nonneg:
  assumes "valid_inputs fc fy b h cover ba nx ny" "0 < c"
  shows "0 \<le> pt_x (calculatePoint c b h fc fy (beta1_of fc) (steelLayers h cover ba nx ny) epsilon_cu)"
proof -
  let ?ls = "steelLayers h cover ba nx ny"
  let ?a = "block_a (beta1_of fc) c h"
  from assms have pos: "0 < fc" "0 < fy" "0 < b" "0 < h" "0 < ba" "1 \<le> nx" "2 \<le> ny"
    by (simp_all add: valid_inputs_def)
  have "0 \<le> beta1_of fc" using beta1_of_bounds [of fc] by simp
  then have a0: "0 \<le> ?a" using pos assms(2) by (intro block_a_nonneg) simp_all
  have ah: "?a \<le> h" by (rule block_a_le)
  have conc: "0 \<le> 85 / 100 * fc * b * ?a * (h / 2 - ?a / 2)"
    using pos a0 ah by simp
  have "list_all (\<lambda>l. 0 \<le> layer_As l) ?ls"
    using pos by (intro steelLayers_As_nonneg) simp_all
  then have "steel_fs c fy epsilon_cu (h / 2) * sum_list (map (\<lambda>l. layer_As l * (h / 2 - layer_y l)) ?ls)
      \<le> sum_list (map (steel_M c h fy epsilon_cu) ?ls)"
    using assms(2) pos by (intro sum_steel_M_lower) (simp_all add: epsilon_cu_def)
  then have steel: "0 \<le> sum_list (map (steel_M c h fy epsilon_cu) ?ls)"
    using steelLayers_centroid [OF pos(7), of h cover ba nx] by simp
  show ?thesis
    using conc steel by (simp add: calculatePoint_def internal_PM_closed)
qed

lemma c_ratios_pos: "list_all (\<lambda>r. 0 < r) c_ratios"
  by (simp add: c_ratios_def)

lemma Max_insert_nonneg:
  assumes "finite S" "S \<noteq> {}" "\<forall>x\<in>S. (0::real) \<le> x"
  shows "Max (insert 0 S) = Max S"
proof -
  have "Max S \<in> S" using assms by (intro Max_in) simp_all
  then have "0 \<le> Max S" using assms by blast
  then show ?thesis using assms by (simp add: Max_insert max_def)
qed

section \<open>The claims\<close>

subsection \<open>Input checking\<close>

text \<open>
  Claim C1 as it is stated fails: an input that breaks the invariants of the
  specification (here \<open>cover = 30\<close> with \<open>h = 50\<close>, so \<open>cover \<ge> h / 2\<close> and the spacing of
  the side layers is negative) still gets its diagram of 22 points, with the top layer
  below the bottom one.
\<close>

theorem unchecked_invariants_counterexample:
  "\<not> valid_inputs 280 4200 30 50 30 (285 / 100) 3 3
   \<and> (30::real) \<ge> 50 / 2
   \<and> (50 - 2 * 30) / real_of_int (3 - 1) < 0
   \<and> steelLayers 50 30 (285 / 100) 3 3 =
       [\<lparr>layer_y = 30, layer_As = 855 / 100\<rparr>, \<lparr>layer_y = 20, layer_As = 855 / 100\<rparr>,
        \<lparr>layer_y = 25, layer_As = 57 / 10\<rparr>]
   \<and> calculateAndDraw (form_of 280 4200 30 50 30 (285 / 100) 3 3) =
       Some (computeDiagram 280 4200 30 50 30 (285 / 100) 3 3)
   \<and> length (dg_points (computeDiagram 280 4200 30 50 30 (285 / 100) 3 3)) = 22"
  by (simp add: valid_inputs_def steelLayers_closed side_layer_def calculateAndDraw_form_of
      computeDiagram_points c_ratios_def upto.simps)

text \<open>
  Claim C1, amended. The program produces no diagram exactly when one of \<open>fc\<close>, \<open>fy\<close>,
  \<open>b\<close>, \<open>h\<close>, \<open>cover\<close>, \<open>nx\<close>, \<open>ny\<close> is not a number; the result then carries no
  indication of the field. No other invariant is tested: every other input gets a
  diagram.
\<close>

theorem calculateAndDraw_None_iff:
  "calculateAndDraw f = None \<longleftrightarrow>
     isNaN (val_fc f) \<or> isNaN (val_fy f) \<or> isNaN (val_b f) \<or> isNaN (val_h f)
     \<or> isNaN (val_cover f) \<or> isNaN (val_nx f) \<or> isNaN (val_ny f)"
proof
  assume "calculateAndDraw f = None"
  then show "isNaN (val_fc f) \<or> isNaN (val_fy f) \<or> isNaN (val_b f) \<or> isNaN (val_h f)
     \<or> isNaN (val_cover f) \<or> isNaN (val_nx f) \<or> isNaN (val_ny f)"
    using calculateAndDraw_numeric [of f] by auto
next
  assume "isNaN (val_fc f) \<or> isNaN (val_fy f) \<or> isNaN (val_b f) \<or> isNaN (val_h f)
     \<or> isNaN (val_cover f) \<or> isNaN (val_nx f) \<or> isNaN (val_ny f)"
  then show "calculateAndDraw f = None"
    by (simp add: calculateAndDraw_def)
qed

theorem calculateAndDraw_None_iff_witness:
  "calculateAndDraw \<lparr>val_fc = Num 280, val_fy = Num 4200, val_b = Num 30, val_h = NaN,
      val_cover = Num 4, val_barSize = 285 / 100, val_nx = Num 3, val_ny = Num 3\<rparr> = None
   \<and> calculateAndDraw (form_of 280 4200 30 50 30 (285 / 100) 3 3) \<noteq> None"
  using calculateAndDraw_None_iff [of "\<lparr>val_fc = Num 280, val_fy = Num 4200, val_b = Num 30,
      val_h = NaN, val_cover = Num 4, val_barSize = 285 / 100, val_nx = Num 3, val_ny = Num 3\<rparr>"]
    calculateAndDraw_None_iff [of "form_of 280 4200 30 50 30 (285 / 100) 3 3"]
  by (simp add: form_of_def)

subsection \<open>The summary value of the moment\<close>

text \<open>
  Claim C2. For every valid input, the summary value \<open>Mo_approx\<close> is the greatest
  moment coordinate among the 20 points of the sweep, the points of the diagram
  without its first (pure compression) and last (pure tension) point.
\<close>

theorem Mo_approx_is_max:
  assumes "valid_inputs fc fy b h cover barArea nx ny"
  shows "\<exists>dg. calculateAndDraw (form_of fc fy b h cover barArea nx ny) = Some dg
     \<and> length (butlast (tl (dg_points dg))) = 20
     \<and> dg_Mo_approx dg = Max (set (map pt_x (butlast (tl (dg_points dg)))))"
proof -
  let ?dg = "computeDiagram fc fy b h cover barArea nx ny"
  let ?g = "\<lambda>r. pt_x (calculatePoint (r * h) b h fc fy (beta1_of fc)
            (steelLayers h cover barArea nx ny) epsilon_cu)"
  from assms have "0 < h" by (simp add: valid_inputs_def)
  have sweep: "butlast (tl (dg_points ?dg)) =
      map (\<lambda>r. calculatePoint (r * h) b h fc fy (beta1_of fc)
            (steelLayers h cover barArea nx ny) epsilon_cu) c_ratios"
    by (simp add: computeDiagram_points butlast_append)
  have len: "length c_ratios = 20" by (simp add: c_ratios_def)
  have ne: "set c_ratios \<noteq> {}" by (simp add: c_ratios_def)
  have "\<forall>r\<in>set c_ratios. 0 \<le> ?g r"
  proof
    fix r assume "r \<in> set c_ratios"
    then have "0 < r" using c_ratios_pos by (simp add: list_all_iff)
    then have "0 < r * h" using \<open>0 < h\<close> by simp
    then show "0 \<le> ?g r" by (rule calculatePoint_x_nonneg [OF assms])
  qed
  then have "Max (insert 0 (?g ` set c_ratios)) = Max (?g ` set c_ratios)"
    using ne by (intro Max_insert_nonneg) auto
  then have mo: "dg_Mo_approx ?dg = Max (set (map pt_x (butlast (tl (dg_points ?dg)))))"
    unfolding sweep by (simp add: computeDiagram_Mo image_image)
  have l20: "length (butlast (tl (dg_points ?dg))) = 20"
    unfolding sweep using len by simp
  show ?thesis
    by (intro exI [of _ ?dg] conjI calculateAndDraw_form_of l20 mo)
qed

theorem Mo_approx_is_max_witness:
  "valid_inputs 280 4200 30 50 4 (285 / 100) 3 3
   \<and> (\<exists>dg. calculateAndDraw (form_of 280 4200 30 50 4 (285 / 100) 3 3) = Some dg
        \<and> length (butlast (tl (dg_points dg))) = 20
        \<and> dg_Mo_approx dg = Max (set (map pt_x (butlast (tl (dg_points dg)))))
        \<and> dg_Mo_approx dg = 6538675689 / 176000000)"
proof -
  have v: "valid_inputs 280 4200 30 50 4 (285 / 100) 3 3"
    by (simp add: valid_inputs_def)
  have m: "dg_Mo_approx (computeDiagram 280 4200 30 50 4 (285 / 100) 3 3) = 6538675689 / 176000000"
    by code_simp
  show ?thesis
    using Mo_approx_is_max [OF v] v m by (auto simp: calculateAndDraw_form_of)
qed

subsection \<open>The order and the units of the points\<close>

text \<open>
  Claim C3. For every valid input, the points are, in this order: the point of pure
  compression, the result of the solver for each ratio of the ladder from 2.0 down to
  0.05 with \<open>c = r * h\<close>, and the point of pure tension. The axial value of a result
  of the solver is the internal force divided by 1000, its moment value the
  internal moment divided by 100000.
\<close>

theorem points_in_order:
  assumes "valid_inputs fc fy b h cover barArea nx ny"
  shows "\<exists>dg. calculateAndDraw (form_of fc fy b h cover barArea nx ny) = Some dg
     \<and> dg_points dg =
         [\<lparr>pt_x = 0, pt_y = dg_Po dg\<rparr>]
         @ map (\<lambda>r. calculatePoint (r * h) b h fc fy (beta1_of fc)
                  (steelLayers h cover barArea nx ny) epsilon_cu)
             [2, 15 / 10, 12 / 10, 11 / 10, 1, 9 / 10, 8 / 10, 7 / 10, 6 / 10, 55 / 100,
              5 / 10, 45 / 100, 4 / 10, 35 / 100, 3 / 10, 25 / 100, 2 / 10, 15 / 100,
              1 / 10, 5 / 100]
         @ [\<lparr>pt_x = 0, pt_y = (- fy * Ast_of (steelLayers h cover barArea nx ny)) / 1000\<rparr>]
     \<and> dg_Po dg =
         (85 / 100 * fc * (b * h - Ast_of (steelLayers h cover barArea nx ny))
           + fy * Ast_of (steelLayers h cover barArea nx ny)) / 1000
     \<and> calculatePoint c b h fc fy (beta1_of fc) (steelLayers h cover barArea nx ny) epsilon_cu =
         \<lparr>pt_x = snd (internal_PM c b h fc fy (beta1_of fc)
                    (steelLayers h cover barArea nx ny) epsilon_cu) / 100000,
          pt_y = fst (internal_PM c b h fc fy (beta1_of fc)
                    (steelLayers h cover barArea nx ny) epsilon_cu) / 1000\<rparr>"
  by (simp add: calculateAndDraw_form_of computeDiagram_points computeDiagram_Po c_ratios_def
      calculatePoint_def split: prod.splits)

theorem points_in_order_witness:
  "valid_inputs 280 4200 30 50 4 (285 / 100) 3 3
   \<and> (\<exists>dg. calculateAndDraw (form_of 280 4200 30 50 4 (285 / 100) 3 3) = Some dg
        \<and> length (dg_points dg) = 22
        \<and> dg_points dg ! 0 = \<lparr>pt_x = 0, pt_y = dg_Po dg\<rparr>
        \<and> dg_points dg ! 1 = \<lparr>pt_x = 16073316 / 10000000, pt_y = 44510604 / 100000\<rparr>
        \<and> dg_points dg ! 21 = \<lparr>pt_x = 0, pt_y = - (9576 / 100)\<rparr>)"
proof -
  have v: "valid_inputs 280 4200 30 50 4 (285 / 100) 3 3"
    by (simp add: valid_inputs_def)
  have c1: "calculatePoint (2 * 50) 30 50 280 4200 (beta1_of 280)
      (steelLayers 50 4 (285 / 100) 3 3) epsilon_cu
      = \<lparr>pt_x = 16073316 / 10000000, pt_y = 44510604 / 100000\<rparr>"
    by code_simp
  have cT: "(- 4200 * Ast_of (steelLayers 50 4 (285 / 100) 3 3)) / 1000 = - (9576 / 100)"
    by code_simp
  from points_in_order [OF v, of 0] obtain dg where
    dg: "calculateAndDraw (form_of 280 4200 30 50 4 (285 / 100) 3 3) = Some dg" and
    pts: "dg_points dg =
         [\<lparr>pt_x = 0, pt_y = dg_Po dg\<rparr>]
         @ map (\<lambda>r. calculatePoint (r * 50) 30 50 280 4200 (beta1_of 280)
                  (steelLayers 50 4 (285 / 100) 3 3) epsilon_cu)
             [2, 15 / 10, 12 / 10, 11 / 10, 1, 9 / 10, 8 / 10, 7 / 10, 6 / 10, 55 / 100,
              5 / 10, 45 / 100, 4 / 10, 35 / 100, 3 / 10, 25 / 100, 2 / 10, 15 / 100,
              1 / 10, 5 / 100]
         @ [\<lparr>pt_x = 0, pt_y = (- 4200 * Ast_of (steelLayers 50 4 (285 / 100) 3 3)) / 1000\<rparr>]"
    by blast
  have "length (dg_points dg) = 22"
    unfolding pts by simp
  moreover have "dg_points dg ! 0 = \<lparr>pt_x = 0, pt_y = dg_Po dg\<rparr>"
    unfolding pts by simp
  moreover have "dg_points dg ! 1 = \<lparr>pt_x = 16073316 / 10000000, pt_y = 44510604 / 100000\<rparr>"
    unfolding pts using c1 by simp
  moreover have "dg_points dg ! 21 = \<lparr>pt_x = 0, pt_y = - (9576 / 100)\<rparr>"
    unfolding pts cT by simp
  ultimately show ?thesis
    using v dg by blast
qed

subsection \<open>Pure compression and pure tension\<close>

text \<open>
  Claim C4. For every valid input, the first point of the diagram is \<open>(0, Po)\<close> with
  \<open>Po = (0.85 * fc * (Ag - Ast) + fy * Ast) / 1000\<close>, where \<open>Ag = b * h\<close> and \<open>Ast\<close>
  is the sum of the areas of the layers of the builder.
\<close>

theorem first_point_Po:
  assumes "valid_inputs fc fy b h cover barArea nx ny"
  shows "\<exists>dg. calculateAndDraw (form_of fc fy b h cover barArea nx ny) = Some dg
     \<and> hd (dg_points dg) =
         \<lparr>pt_x = 0,
          pt_y = (85 / 100 * fc * (b * h - sum_list (map layer_As (steelLayers h cover barArea nx ny)))
                  + fy * sum_list (map layer_As (steelLayers h cover barArea nx ny))) / 1000\<rparr>
     \<and> dg_Po dg =
         (85 / 100 * fc * (b * h - sum_list (map layer_As (steelLayers h cover barArea nx ny)))
           + fy * sum_list (map layer_As (steelLayers h cover barArea nx ny))) / 1000"
  by (simp add: calculateAndDraw_form_of computeDiagram_points computeDiagram_Po Ast_of_sum)

theorem first_point_Po_witness:
  "valid_inputs 280 4200 30 50 4 (285 / 100) 3 3
   \<and> sum_list (map layer_As (steelLayers 50 4 (285 / 100) 3 3)) = 228 / 10
   \<and> (\<exists>dg. calculateAndDraw (form_of 280 4200 30 50 4 (285 / 100) 3 3) = Some dg
        \<and> hd (dg_points dg) = \<lparr>pt_x = 0, pt_y = 4473336 / 10000\<rparr>
        \<and> dg_Po dg = 4473336 / 10000)"
proof -
  have v: "valid_inputs 280 4200 30 50 4 (285 / 100) 3 3"
    by (simp add: valid_inputs_def)
  have s: "sum_list (map layer_As (steelLayers 50 4 (285 / 100) 3 3)) = 228 / 10"
    by (simp add: steelLayers_closed side_layer_def)
  show ?thesis
    using first_point_Po [OF v] v unfolding s by simp
qed

text \<open>
  Claim C5. For every valid input, the last point of the diagram is \<open>(0, Pt)\<close> with
  \<open>Pt = - fy * Ast / 1000\<close>, where \<open>Ast\<close> is the sum of the areas of the layers of the
  builder.
\<close>

theorem last_point_Pt:
  assumes "valid_inputs fc fy b h cover barArea nx ny"
  shows "\<exists>dg. calculateAndDraw (form_of fc fy b h cover barArea nx ny) = Some dg
     \<and> last (dg_points dg) =
         \<lparr>pt_x = 0,
          pt_y = (- fy * sum_list (map layer_As (steelLayers h cover barArea nx ny))) / 1000\<rparr>"
  by (simp add: calculateAndDraw_form_of computeDiagram_points Ast_of_sum)

theorem last_point_Pt_witness:
  "valid_inputs 280 4200 30 50 4 (285 / 100) 3 3
   \<and> (\<exists>dg. calculateAndDraw (form_of 280 4200 30 50 4 (285 / 100) 3 3) = Some dg
        \<and> last (dg_points dg) = \<lparr>pt_x = 0, pt_y = - (9576 / 100)\<rparr>)"
proof -
  have v: "valid_inputs 280 4200 30 50 4 (285 / 100) 3 3"
    by (simp add: valid_inputs_def)
  have s: "sum_list (map layer_As (steelLayers 50 4 (285 / 100) 3 3)) = 228 / 10"
    by (simp add: steelLayers_closed side_layer_def)
  show ?thesis
    using last_point_Pt [OF v] v unfolding s by simp
qed

subsection \<open>The layers of the builder\<close>

text \<open>
  Claim C6. For every valid input, the builder makes one top layer at depth \<open>cover\<close>
  with area \<open>nx * barArea\<close>, one bottom layer at depth \<open>h - cover\<close> with the same
  area and, for \<open>i\<close> from 1 to \<open>ny - 2\<close>, a side layer of area \<open>2 * barArea\<close> at depth
  \<open>cover + i * (h - 2 * cover) / (ny - 1)\<close>: \<open>ny - 2\<close> side layers, 5 layers in all
  for \<open>ny = 5\<close>, and no side layer for \<open>ny \<le> 2\<close>.
\<close>

theorem steelLayers_layout:
  assumes "valid_inputs fc fy b h cover barArea nx ny"
  shows "steelLayers h cover barArea nx ny =
           [\<lparr>layer_y = cover, layer_As = real_of_int nx * barArea\<rparr>,
            \<lparr>layer_y = h - cover, layer_As = real_of_int nx * barArea\<rparr>]
           @ map (\<lambda>i. \<lparr>layer_y = cover + real_of_int i * (h - 2 * cover) / real_of_int (ny - 1),
                        layer_As = 2 * barArea\<rparr>) [1..ny - 2]
         \<and> length [1..ny - 2] = nat (ny - 2)
         \<and> length (steelLayers h cover barArea nx ny) = nat ny
         \<and> (ny = 5 \<longrightarrow> length (steelLayers h cover barArea nx ny) = 5)
         \<and> (ny \<le> 2 \<longrightarrow> steelLayers h cover barArea nx ny =
               [\<lparr>layer_y = cover, layer_As = real_of_int nx * barArea\<rparr>,
                \<lparr>layer_y = h - cover, layer_As = real_of_int nx * barArea\<rparr>])"
proof -
  from assms have "2 \<le> ny" by (simp add: valid_inputs_def)
  then show ?thesis
    by (simp add: steelLayers_closed side_layer_def)
qed

theorem steelLayers_layout_witness:
  "valid_inputs 280 4200 30 50 4 (285 / 100) 3 5
   \<and> steelLayers 50 4 (285 / 100) 3 5 =
       [\<lparr>layer_y = 4, layer_As = 855 / 100\<rparr>, \<lparr>layer_y = 46, layer_As = 855 / 100\<rparr>,
        \<lparr>layer_y = 145 / 10, layer_As = 57 / 10\<rparr>, \<lparr>layer_y = 25, layer_As = 57 / 10\<rparr>,
        \<lparr>layer_y = 355 / 10, layer_As = 57 / 10\<rparr>]
   \<and> length (steelLayers 50 4 (285 / 100) 3 5) = 5"
proof -
  have v: "valid_inputs 280 4200 30 50 4 (285 / 100) 3 5"
    by (simp add: valid_inputs_def)
  have u: "[1..3] = [1, 2, 3::int]"
    by (simp add: upto.simps)
  show ?thesis
    using steelLayers_layout [OF v] v u by simp
qed

text \<open>
  Claim C10. For every \<open>ny \<le> 2\<close>, also 0, 1 and the negative values that the
  invariant \<open>ny \<ge> 2\<close> excludes, the builder makes the top and the bottom layer and
  nothing else, \<open>Ast\<close> is \<open>2 * nx * barArea\<close>, and the program goes on to its diagram.
\<close>

theorem steelLayers_two_rows:
  assumes "ny \<le> 2"
  shows "steelLayers h cover barArea nx ny =
           [\<lparr>layer_y = cover, layer_As = real_of_int nx * barArea\<rparr>,
            \<lparr>layer_y = h - cover, layer_As = real_of_int nx * barArea\<rparr>]
         \<and> Ast_of (steelLayers h cover barArea nx ny) = 2 * real_of_int nx * barArea
         \<and> (\<exists>dg. calculateAndDraw (form_of fc fy b h cover barArea nx ny) = Some dg
               \<and> dg_Po dg = (85 / 100 * fc * (b * h - 2 * real_of_int nx * barArea)
                               + fy * (2 * real_of_int nx * barArea)) / 1000)"
  using assms
  by (simp add: calculateAndDraw_form_of computeDiagram_Po Ast_of_sum steelLayers_closed)

theorem steelLayers_two_rows_witness:
  "(- 1 :: int) \<le> 2
   \<and> steelLayers 50 4 (285 / 100) 3 (- 1) =
       [\<lparr>layer_y = 4, layer_As = 855 / 100\<rparr>, \<lparr>layer_y = 46, layer_As = 855 / 100\<rparr>]
   \<and> Ast_of (steelLayers 50 4 (285 / 100) 3 (- 1)) = 171 / 10
   \<and> (\<exists>dg. calculateAndDraw (form_of 280 4200 30 50 4 (285 / 100) 3 (- 1)) = Some dg)"
  using steelLayers_two_rows [of "- 1" 50 4 "285 / 100" 3 280 4200 30]
  by auto

subsection \<open>The stress block\<close>

text \<open>
  Claim C7. The depth \<open>a\<close> of the stress block that the solver uses for the force
  \<open>0.85 * fc * b * a\<close> and the moment \<open>C_c * (h / 2 - a / 2)\<close> of the concrete is never
  more than \<open>h\<close>, and it is \<open>h\<close> whenever \<open>beta1 * c > h\<close>.
\<close>

theorem stress_block_cap:
  "block_a beta1 c h \<le> h
   \<and> (beta1 * c > h \<longrightarrow> block_a beta1 c h = h)
   \<and> internal_PM c b h fc fy beta1 ls e =
       (85 / 100 * fc * b * block_a beta1 c h + sum_list (map (steel_F c fy e) ls),
        85 / 100 * fc * b * block_a beta1 c h * (h / 2 - block_a beta1 c h / 2)
          + sum_list (map (steel_M c h fy e) ls))"
  by (simp add: internal_PM_closed) (simp add: block_a_def Let_def)

theorem stress_block_cap_witness:
  "(50::real) < 85 / 100 * 100 \<and> block_a (85 / 100) 100 50 = 50
   \<and> block_a (85 / 100) 25 50 = 2125 / 100
   \<and> internal_PM 100 30 50 280 4200 (85 / 100) [] epsilon_cu = (357000, 0)"
  using stress_block_cap [of "85 / 100" 100 50 30 280 4200 "[]" epsilon_cu]
  by (simp add: block_a_def)

subsection \<open>The steel stress\<close>

text \<open>
  Claim C8. With \<open>fy > 0\<close>, for every layer depth \<open>d\<close> and every neutral-axis depth
  \<open>c > 0\<close>, the steel stress that the solver computes,
  \<open>Es * epsilon_cu * (c - d) / c\<close> before it is clamped, lies in the closed interval
  from \<open>- fy\<close> to \<open>fy\<close>.
\<close>

theorem steel_fs_clamped:
  assumes "0 < fy" and "0 < c"
  shows "- fy \<le> steel_fs c fy epsilon_cu d \<and> steel_fs c fy epsilon_cu d \<le> fy
     \<and> steel_fs c fy epsilon_cu d = max (- fy) (min fy (Es * epsilon_cu * (c - d) / c))"
  using assms by (simp add: steel_fs_def Let_def max_def min_def)

theorem steel_fs_clamped_witness:
  "(0::real) < 4200 \<and> (0::real) < 25
   \<and> - 4200 \<le> steel_fs 25 4200 epsilon_cu 46 \<and> steel_fs 25 4200 epsilon_cu 46 \<le> 4200
   \<and> steel_fs 25 4200 epsilon_cu 46 = - 4200
   \<and> steel_fs 25 4200 epsilon_cu 20 = 1224"
  using steel_fs_clamped [of 4200 25 46]
  by (simp add: steel_fs_def Let_def epsilon_cu_def Es_def)

subsection \<open>The number of points\<close>

text \<open>
  Claim C9. Every input that passes the test of line 35 gets a diagram of exactly 22
  points: the point of pure compression, one point for each of the 20 ratios of the
  ladder, and the point of pure tension.
\<close>

theorem passes_validation_22_points:
  assumes "\<not> (isNaN (val_fc f) \<or> isNaN (val_fy f) \<or> isNaN (val_b f) \<or> isNaN (val_h f)
         \<or> isNaN (val_cover f) \<or> isNaN (val_nx f) \<or> isNaN (val_ny f))"
  shows "\<exists>dg. calculateAndDraw f = Some dg
     \<and> length (dg_points dg) = 22
     \<and> length (butlast (tl (dg_points dg))) = length c_ratios
     \<and> length c_ratios = 20"
proof -
  from assms obtain fc fy b h cover nx ny where
    "calculateAndDraw f = Some (computeDiagram fc fy b h cover (val_barSize f) nx ny)"
    using calculateAndDraw_numeric [of f] by blast
  then show ?thesis
    by (simp add: computeDiagram_points c_ratios_def)
qed

theorem passes_validation_22_points_witness:
  "\<not> (isNaN (val_fc (form_of 280 4200 30 50 4 (285 / 100) 3 3))
      \<or> isNaN (val_fy (form_of 280 4200 30 50 4 (285 / 100) 3 3))
      \<or> isNaN (val_b (form_of 280 4200 30 50 4 (285 / 100) 3 3))
      \<or> isNaN (val_h (form_of 280 4200 30 50 4 (285 / 100) 3 3))
      \<or> isNaN (val_cover (form_of 280 4200 30 50 4 (285 / 100) 3 3))
      \<or> isNaN (val_nx (form_of 280 4200 30 50 4 (285 / 100) 3 3))
      \<or> isNaN (val_ny (form_of 280 4200 30 50 4 (285 / 100) 3 3)))
   \<and> (\<exists>dg. calculateAndDraw (form_of 280 4200 30 50 4 (285 / 100) 3 3) = Some dg
        \<and> length (dg_points dg) = 22)"
  using passes_validation_22_points [of "form_of 280 4200 30 50 4 (285 / 100) 3 3"]
  by (auto simp: form_of_def)

end
